theory Spec2Isabelle
  imports Complex_Main
begin

section \<open>JavaScript values and strings\<close>

text \<open>
  JavaScript numbers are modelled as real numbers: sums, comparisons and the clamp are
  exact, the rounding of IEEE doubles is not represented, and neither are NaN and the
  infinities (a parse that yields NaN is the value \<open>None\<close>). Strings are lists of
  characters; \<open>toLowerCase\<close> acts on the letters A to Z and \<open>trim\<close> on the ASCII
  white space characters.

  A raw row is an object read from a CSV file or a JSON payload: a finite map from
  column names to values, a value being a string or a number. A missing key
  (\<open>undefined\<close>) is \<open>None\<close>.
\<close>

datatype jsval = JStr string | JNum real

type_synonym raw_row = "string \<Rightarrow> jsval option"

datatype error = TypeError

fun truthy :: "jsval option \<Rightarrow> bool" where
  "truthy None = False"
| "truthy (Some (JStr s)) = (s \<noteq> [])"
| "truthy (Some (JNum n)) = (n \<noteq> 0)"

text \<open>The operator \<open>a || b\<close>: the left operand when it is truthy, the right one otherwise.\<close>

definition orElse :: "jsval option \<Rightarrow> jsval option \<Rightarrow> jsval option" where
  "orElse a b = (if truthy a then a else b)"

definition upperAZ :: string where
  "upperAZ = ''ABCDEFGHIJKLMNOPQRSTUVWXYZ''"

definition lowerAZ :: string where
  "lowerAZ = ''abcdefghijklmnopqrstuvwxyz''"

definition lowerChar :: "char \<Rightarrow> char" where
  "lowerChar c = (case map_of (zip upperAZ lowerAZ) c of Some l \<Rightarrow> l | None \<Rightarrow> c)"

definition toLowerCase :: "string \<Rightarrow> string" where
  "toLowerCase s = map lowerChar s"

definition isSpace :: "char \<Rightarrow> bool" where
  "isSpace c = (c \<in> set [CHR '' '', CHR 0x09, CHR 0x0A, CHR 0x0B, CHR 0x0C, CHR 0x0D])"

definition trim :: "string \<Rightarrow> string" where
  "trim s = rev (dropWhile isSpace (rev (dropWhile isSpace s)))"

text \<open>\<open>reasons.join(', ')\<close>.\<close>

fun join :: "string \<Rightarrow> string list \<Rightarrow> string" where
  "join sep [] = []"
| "join sep [x] = x"
| "join sep (x # y # ys) = x @ sep @ join sep (y # ys)"

text \<open>
  The remainder \<open>x % m\<close> of JavaScript on finite numbers: the quotient is truncated
  towards zero, so the result has the sign of \<open>x\<close>.
\<close>

definition js_rem :: "real \<Rightarrow> real \<Rightarrow> real" where
  "js_rem x m = x - m * of_int (if 0 \<le> x / m then \<lfloor>x / m\<rfloor> else \<lceil>x / m\<rceil>)"

text \<open>
  \<open>parseFloat(x.toFixed(4))\<close>: the multiple of 1/10000 nearest to \<open>x\<close>, the larger one
  on a tie (ECMAScript, Number.prototype.toFixed).
\<close>

definition toFixed4 :: "real \<Rightarrow> real" where
  "toFixed4 x = of_int \<lfloor>x * 10000 + 1 / 2\<rfloor> / 10000"


section \<open>The rows of the pipeline\<close>

text \<open>
  \<open>cleaned_row\<close> is the object \<open>cleanRow\<close> builds; \<open>Merchant\<close>, \<open>User_ID\<close> and
  \<open>Location\<close> are raw values passed through unchanged. \<open>feature_row\<close>, the input of
  the scorer, is that object with those of the fields added by \<open>engineerFeatures\<close> that
  the scorer reads; the truthiness of \<open>Is_Night_Transaction\<close> and \<open>Is_Foreign\<close> is a
  boolean, an \<open>Hour_of_Day\<close> that is not a number is \<open>None\<close>. \<open>prediction\<close> is the
  object the scorer returns for a row, \<open>pred_id\<close> being its \<open>Transaction_ID\<close>; an
  empty identifier stands for a missing one.
\<close>

record cleaned_row =
  Transaction_ID :: string
  Amount :: real
  Merchant :: jsval
  Category :: string
  User_ID :: jsval
  Timestamp :: string
  Location :: jsval
  Payment_Method :: string

record feature_row = cleaned_row +
  Hour_of_Day :: "int option"
  Is_Night_Transaction :: bool
  Is_Foreign :: bool

record prediction =
  pred_id :: string
  ml_pred_prob :: real
  fraud_flag :: nat
  risk_level :: string
  reason :: string


section \<open>The risk scorer (fraudDetectionModel.js)\<close>

text \<open>
  Every rule of \<open>ruleBasedPrediction\<close> that fires adds an increment to \<open>fraudScore\<close> and
  pushes one string on \<open>reasons\<close>; a rule is modelled as the list of the (increment,
  reason) pairs it contributes, empty when it does not fire, and the rules are
  concatenated in the order of the source.
\<close>

type_synonym fired = "(real \<times> string) list"

definition amountRule :: "real \<Rightarrow> fired" where
  "amountRule a =
     (if a > 1000 then [(0.6, ''High transaction amount (>$1000)'')]
      else if a > 500 then [(0.4, ''Medium transaction amount (>$500)'')]
      else if a > 100 then [(0.2, ''Above average amount (>$100)'')]
      else [])"

text \<open>A comparison with an \<open>Hour_of_Day\<close> that is not a number is false.\<close>

definition nightRule :: "bool \<Rightarrow> int option \<Rightarrow> fired" where
  "nightRule night h =
     (if night \<or> (case h of None \<Rightarrow> False | Some n \<Rightarrow> n \<ge> 22 \<or> n \<le> 6)
      then [(0.3, ''Night time transaction (high risk)'')] else [])"

definition categoryRule :: "string \<Rightarrow> fired" where
  "categoryRule c =
     (if c = ''ATM'' then [(0.4, ''ATM transaction (very high risk)'')]
      else if c = ''Online'' \<or> c = ''E-commerce''
        then [(0.3, ''Online/E-commerce transaction (high risk)'')]
      else if c = ''Gas'' \<or> c = ''Food'' then [(0.1, ''Common fraud category'')]
      else [])"

definition foreignRule :: "bool \<Rightarrow> fired" where
  "foreignRule f = (if f then [(0.4, ''Foreign transaction (very high risk)'')] else [])"

definition paymentRule :: "string \<Rightarrow> fired" where
  "paymentRule m =
     (if m = ''digital_wallet'' then [(0.2, ''Digital wallet payment (higher risk)'')]
      else if m = ''credit_card'' then [(0.15, ''Credit card transaction'')]
      else [])"

text \<open>
  \<open>hour\<close> is the value of \<open>new Date(row.Timestamp || Date.now()).getHours()\<close>, the local
  hour of the row's timestamp: \<open>None\<close> when the date is invalid (NaN).
\<close>

definition earlyRule :: "int option \<Rightarrow> fired" where
  "earlyRule hour =
     (case hour of None \<Rightarrow> []
      | Some h \<Rightarrow> if h \<ge> 0 \<and> h \<le> 7 then [(0.25, ''Very early morning transaction'')] else [])"

definition roundRule :: "real \<Rightarrow> fired" where
  "roundRule a =
     (if a \<noteq> 0 \<and> js_rem a 100 = 0
      then [(0.1, ''Round number amount (suspicious pattern)'')] else [])"

definition firedRules :: "int option \<Rightarrow> feature_row \<Rightarrow> fired" where
  "firedRules hour row =
     amountRule (Amount row)
     @ nightRule (Is_Night_Transaction row) (Hour_of_Day row)
     @ categoryRule (Category row)
     @ foreignRule (Is_Foreign row)
     @ paymentRule (Payment_Method row)
     @ earlyRule hour
     @ roundRule (Amount row)"

text \<open>The score before the random term is added, and the list \<open>reasons\<close>.\<close>

definition baseScore :: "int option \<Rightarrow> feature_row \<Rightarrow> real" where
  "baseScore hour row = 0.2 + sum_list (map fst (firedRules hour row))"

definition reasons :: "int option \<Rightarrow> feature_row \<Rightarrow> string list" where
  "reasons hour row = map snd (firedRules hour row)"

text \<open>\<open>rnd\<close> is the value \<open>Math.random()\<close> returns for this row.\<close>

definition fraudScore :: "int option \<Rightarrow> real \<Rightarrow> feature_row \<Rightarrow> real" where
  "fraudScore hour rnd row = baseScore hour row + rnd * 0.3"

definition fraudProb :: "int option \<Rightarrow> real \<Rightarrow> feature_row \<Rightarrow> real" where
  "fraudProb hour rnd row = max 0.1 (min 1 (fraudScore hour rnd row))"

definition getRiskLevel :: "real \<Rightarrow> string" where
  "getRiskLevel p = (if p \<ge> 0.5 then ''HIGH'' else if p \<ge> 0.3 then ''MEDIUM'' else ''LOW'')"

text \<open>
  The body of the \<open>map\<close> callback for one row. \<open>genId\<close> is the identifier generated from
  the clock and the random source, used when the row has none.
\<close>

definition ruleBasedRow :: "int option \<Rightarrow> real \<Rightarrow> string \<Rightarrow> feature_row \<Rightarrow> prediction" where
  "ruleBasedRow hour rnd genId row =
     (let p = fraudProb hour rnd row; rs = reasons hour row in
      \<lparr> pred_id = (if Transaction_ID row = [] then genId else Transaction_ID row),
        ml_pred_prob = toFixed4 p,
        fraud_flag = (if p > 0.3 then 1 else 0),
        risk_level = getRiskLevel p,
        reason = (if length rs > 0 then join '', '' rs else ''Baseline fraud risk detected'') \<rparr>)"


section \<open>The normalizer (dataPreprocessor.js)\<close>

text \<open>
  The built-in functions of the language the normalizer calls are parameters of the
  model: \<open>parseFloat\<close> (\<open>None\<close> is NaN), the conversion of a number to a string
  (\<open>String(n)\<close>, \<open>n.toString()\<close>), and \<open>new Date(v)\<close> followed by \<open>toISOString()\<close>
  (\<open>None\<close> is an invalid date).
\<close>

record builtins =
  parseFloat :: "string \<Rightarrow> real option"
  numToString :: "real \<Rightarrow> string"
  parseDate :: "jsval \<Rightarrow> string option"

text \<open>
  What the clock and the random source give while one row is cleaned: the digits of
  \<open>Date.now()\<close>, \<open>new Date().toISOString()\<close>,
  \<open>Math.random().toString(36).substr(2, 8)\<close> and the digits of
  \<open>Math.floor(Math.random() * 10000)\<close>.
\<close>

record draws =
  now_ms :: string
  now_iso :: string
  rand36 :: string
  rand_user :: string

definition toStr :: "builtins \<Rightarrow> jsval \<Rightarrow> string" where
  "toStr B v = (case v of JStr s \<Rightarrow> s | JNum n \<Rightarrow> numToString B n)"

text \<open>\<open>a || d\<close> where \<open>d\<close> is a string literal.\<close>

definition orDefault :: "jsval option \<Rightarrow> string \<Rightarrow> jsval" where
  "orDefault a d = (case a of None \<Rightarrow> JStr d | Some v \<Rightarrow> if truthy a then v else JStr d)"

definition isEmpty :: "jsval option \<Rightarrow> bool" where
  "isEmpty value =
     (case value of
        None \<Rightarrow> True
      | Some (JNum n) \<Rightarrow> False
      | Some (JStr s) \<Rightarrow>
          s = [] \<or> trim s = [] \<or> s = ''null'' \<or> s = ''NULL'' \<or> s = ''N/A'' \<or> s = ''n/a'')"

definition isValidRow :: "raw_row \<Rightarrow> bool" where
  "isValidRow row =
     (let hasTransactionId =
            orElse (orElse (orElse (row ''Transaction_ID'') (row ''TransactionID''))
              (row ''transaction_id'')) (row ''id'');
          hasAmount = orElse (row ''Amount'') (row ''amount'')
      in truthy hasTransactionId \<and> truthy hasAmount \<and> \<not> isEmpty hasAmount)"

definition normalizeTransactionId :: "builtins \<Rightarrow> draws \<Rightarrow> raw_row \<Rightarrow> string" where
  "normalizeTransactionId B d row =
     (let ident = orElse (orElse (orElse (row ''Transaction_ID'') (row ''TransactionID''))
                    (row ''transaction_id'')) (row ''id'')
      in case ident of
           None \<Rightarrow> ''TXN-'' @ now_ms d @ ''-'' @ rand36 d
         | Some v \<Rightarrow>
             if truthy ident \<and> trim (toStr B v) \<noteq> [] \<and> v \<noteq> JStr ''null'' \<and> v \<noteq> JStr ''undefined''
             then trim (toStr B v)
             else ''TXN-'' @ now_ms d @ ''-'' @ rand36 d)"

text \<open>\<open>row.Amount || row.amount || row.AMOUNT\<close> and \<open>replace(/[,$]/g, '')\<close>.\<close>

definition amountField :: "raw_row \<Rightarrow> jsval option" where
  "amountField row = orElse (orElse (row ''Amount'') (row ''amount'')) (row ''AMOUNT'')"

definition stripCurrency :: "string \<Rightarrow> string" where
  "stripCurrency s = filter (\<lambda>c. c \<noteq> CHR '','' \<and> c \<noteq> CHR ''$'') s"

definition normalizeAmount :: "builtins \<Rightarrow> raw_row \<Rightarrow> real option" where
  "normalizeAmount B row =
     (case amountField row of
        None \<Rightarrow> None
      | Some v \<Rightarrow>
          if isEmpty (Some v) then None
          else (case parseFloat B (stripCurrency (toStr B v)) of
                  None \<Rightarrow> None
                | Some numAmount \<Rightarrow> if numAmount \<le> 0 then None else Some numAmount))"

definition normalizeMerchant :: "raw_row \<Rightarrow> jsval" where
  "normalizeMerchant row =
     orDefault (orElse (orElse (orElse (row ''Merchant'') (row ''merchant'')) (row ''MERCHANT''))
       (row ''merchant_name'')) ''Unknown Merchant''"

definition validCategories :: "string list" where
  "validCategories = [''E-commerce'', ''Retail'', ''Gas'', ''Food'', ''ATM'', ''Online'', ''Other'']"

definition categoryField :: "raw_row \<Rightarrow> jsval option" where
  "categoryField row =
     orElse (orElse (orElse (row ''Category'') (row ''category'')) (row ''CATEGORY''))
       (row ''merchant_category'')"

text \<open>
  \<open>category.toLowerCase()\<close> raises a TypeError when the value is a number; \<open>cleanRow\<close>
  catches it.
\<close>

definition normalizeCategory :: "raw_row \<Rightarrow> error + string" where
  "normalizeCategory row =
     (let category = categoryField row in
      if \<not> truthy category then Inr ''Other''
      else case category of
             Some (JStr s) \<Rightarrow>
               (case find (\<lambda>cat. toLowerCase cat = toLowerCase s) validCategories of
                  None \<Rightarrow> Inr ''Other''
                | Some matchedCategory \<Rightarrow>
                    Inr (if matchedCategory \<noteq> [] then matchedCategory else ''Other''))
           | _ \<Rightarrow> Inl TypeError)"

definition normalizeUserId :: "draws \<Rightarrow> raw_row \<Rightarrow> jsval" where
  "normalizeUserId d row =
     orDefault (orElse (orElse (orElse (row ''User_ID'') (row ''UserID'')) (row ''user_id''))
       (row ''customer_id'')) (''USER-'' @ rand_user d)"

definition normalizeTimestamp :: "builtins \<Rightarrow> draws \<Rightarrow> raw_row \<Rightarrow> string" where
  "normalizeTimestamp B d row =
     (let timestamp =
            orElse (orElse (orElse (orElse (row ''Timestamp'') (row ''timestamp'')) (row ''date''))
              (row ''Date'')) (row ''transaction_date'')
      in case timestamp of
           None \<Rightarrow> now_iso d
         | Some v \<Rightarrow>
             if \<not> truthy timestamp then now_iso d
             else (case parseDate B v of None \<Rightarrow> now_iso d | Some isoString \<Rightarrow> isoString))"

definition normalizeLocation :: "raw_row \<Rightarrow> jsval" where
  "normalizeLocation row =
     orDefault (orElse (orElse (orElse (row ''Location'') (row ''location'')) (row ''LOCATION''))
       (row ''city'')) ''Unknown''"

definition validMethods :: "string list" where
  "validMethods = [''credit_card'', ''debit_card'', ''bank_transfer'', ''digital_wallet'', ''other'']"

definition paymentField :: "raw_row \<Rightarrow> jsval option" where
  "paymentField row =
     orElse (orElse (orElse (row ''Payment_Method'') (row ''payment_method''))
       (row ''PaymentMethod'')) (row ''card_type'')"

text \<open>\<open>method.toLowerCase().replace(/[^a-z]/g, '_')\<close>.\<close>

definition normalizedMethod :: "string \<Rightarrow> string" where
  "normalizedMethod s = map (\<lambda>c. if c \<in> set lowerAZ then c else CHR ''_'') (toLowerCase s)"

definition normalizePaymentMethod :: "raw_row \<Rightarrow> error + string" where
  "normalizePaymentMethod row =
     (let method = paymentField row in
      if \<not> truthy method then Inr ''credit_card''
      else case method of
             Some (JStr s) \<Rightarrow>
               Inr (if normalizedMethod s \<in> set validMethods then normalizedMethod s
                    else ''other'')
           | _ \<Rightarrow> Inl TypeError)"

text \<open>
  \<open>cleanRow\<close>: \<open>None\<close> is the \<open>null\<close> it returns, from the validation of the cleaned row
  or from the \<open>catch\<close> clause.
\<close>

definition cleanRow :: "builtins \<Rightarrow> draws \<Rightarrow> raw_row \<Rightarrow> cleaned_row option" where
  "cleanRow B d row =
     (case normalizeCategory row of
        Inl e \<Rightarrow> None
      | Inr cat \<Rightarrow>
          (case normalizePaymentMethod row of
             Inl e \<Rightarrow> None
           | Inr method \<Rightarrow>
               (case normalizeAmount B row of
                  None \<Rightarrow> None
                | Some amt \<Rightarrow>
                    if normalizeTransactionId B d row = [] \<or> amt = 0 then None
                    else Some \<lparr> Transaction_ID = normalizeTransactionId B d row,
                                Amount = amt,
                                Merchant = normalizeMerchant row,
                                Category = cat,
                                User_ID = normalizeUserId d row,
                                Timestamp = normalizeTimestamp B d row,
                                Location = normalizeLocation row,
                                Payment_Method = method \<rparr>)))"

text \<open>
  \<open>cleanData\<close>: filter by \<open>isValidRow\<close>, map \<open>cleanRow\<close>, drop the \<open>null\<close>s. Each row comes
  with the draws its cleaning observes.
\<close>

definition cleanData :: "builtins \<Rightarrow> (draws \<times> raw_row) list \<Rightarrow> cleaned_row list" where
  "cleanData B data =
     List.map_filter (\<lambda>(d, row). cleanRow B d row) (filter (\<lambda>(d, row). isValidRow row) data)"

text \<open>A cleaned row read again as an input row.\<close>

definition asRaw :: "cleaned_row \<Rightarrow> raw_row" where
  "asRaw c =
     [''Transaction_ID'' \<mapsto> JStr (Transaction_ID c),
      ''Amount'' \<mapsto> JNum (Amount c),
      ''Merchant'' \<mapsto> Merchant c,
      ''Category'' \<mapsto> JStr (Category c),
      ''User_ID'' \<mapsto> User_ID c,
      ''Timestamp'' \<mapsto> JStr (Timestamp c),
      ''Location'' \<mapsto> Location c,
      ''Payment_Method'' \<mapsto> JStr (Payment_Method c)]"


section \<open>Alert documents (databaseService.js)\<close>

text \<open>
  The part of \<open>saveTransactions\<close> that builds \<open>alertDocs\<close>. A document is the list of its
  keys and values, in the order of the object literal; \<open>field\<close> reads a property,
  \<open>None\<close> when the document has no such key. \<open>now\<close> is the value of \<open>new Date()\<close> in
  milliseconds.
\<close>

datatype docval = DStr string | DDate nat

type_synonym doc = "(string \<times> docval) list"

definition field :: "string \<Rightarrow> doc \<Rightarrow> docval option" where
  "field k d = map_of d k"

definition alertDoc :: "nat \<Rightarrow> prediction \<Rightarrow> doc" where
  "alertDoc now pred =
     [(''Transaction_ID'', DStr (pred_id pred)),
      (''risk_level'', DStr (risk_level pred)),
      (''reason'', DStr (reason pred)),
      (''created_at'', DDate now),
      (''updated_at'', DDate now)]"

definition docTruthy :: "docval option \<Rightarrow> bool" where
  "docTruthy v = (case v of None \<Rightarrow> False | Some (DStr s) \<Rightarrow> s \<noteq> [] | Some (DDate t) \<Rightarrow> True)"

definition alertDocs :: "nat \<Rightarrow> prediction list \<Rightarrow> doc list" where
  "alertDocs now predictions =
     filter (\<lambda>doc. docTruthy (field ''Transaction_ID'' doc))
       (map (alertDoc now)
         (filter (\<lambda>pred. risk_level pred = ''HIGH'' \<or> fraud_flag pred = 1) predictions))"


section \<open>A concrete environment\<close>

text \<open>
  To run the normalizer on concrete rows, the built-ins are instantiated on a fragment
  of their domain. \<open>parseDecimal\<close> is \<open>parseFloat\<close> on strings whose numeric prefix is
  an optional sign, digits and an optional fraction (no exponent, no \<open>Infinity\<close>);
  \<open>showNumber\<close> is \<open>String(n)\<close> on integers; \<open>parseIso\<close> is \<open>new Date(s).toISOString()\<close>
  on instants already written as \<open>YYYY-MM-DDTHH:MM:SS.mmmZ\<close> with calendar fields in
  range. The rows evaluated below stay inside this fragment.
\<close>

definition digitChars :: string where
  "digitChars = ''0123456789''"

definition isDigit :: "char \<Rightarrow> bool" where
  "isDigit c = (c \<in> set digitChars)"

definition digitVal :: "char \<Rightarrow> nat" where
  "digitVal c = (case map_of (zip digitChars [0, 1, 2, 3, 4, 5, 6, 7, 8, 9]) c of
                   Some n \<Rightarrow> n | None \<Rightarrow> 0)"

definition digitsVal :: "string \<Rightarrow> nat" where
  "digitsVal ds = foldl (\<lambda>a c. 10 * a + digitVal c) 0 ds"

definition parseDecimal :: "string \<Rightarrow> real option" where
  "parseDecimal s =
     (let t = dropWhile isSpace s;
          neg = (t \<noteq> [] \<and> hd t = CHR ''-'');
          u = (if t \<noteq> [] \<and> (hd t = CHR ''-'' \<or> hd t = CHR ''+'') then tl t else t);
          ip = takeWhile isDigit u;
          rest = dropWhile isDigit u;
          fp = (if rest \<noteq> [] \<and> hd rest = CHR ''.'' then takeWhile isDigit (tl rest) else [])
      in if ip = [] \<and> fp = [] then None
         else Some ((if neg then - 1 else 1)
                    * (real (digitsVal ip) + real (digitsVal fp) / 10 ^ length fp)))"

function showNat :: "nat \<Rightarrow> string" where
  "showNat n =
     (if n < 10 then [digitChars ! n] else showNat (n div 10) @ [digitChars ! (n mod 10)])"
  by pat_completeness auto
termination
  by (relation "measure (\<lambda>n. n)") auto

declare showNat.simps [simp del]

definition showNumber :: "real \<Rightarrow> string" where
  "showNumber x =
     (if x = of_int \<lfloor>x\<rfloor> then (if x < 0 then ''-'' else []) @ showNat (nat \<bar>\<lfloor>x\<rfloor>\<bar>)
      else ''NaN'')"

definition isoPattern :: string where
  "isoPattern = ''dddd-dd-ddTdd:dd:dd.dddZ''"

definition isIsoInstant :: "string \<Rightarrow> bool" where
  "isIsoInstant s =
     (length s = length isoPattern
      \<and> list_all (\<lambda>(c, p). if p = CHR ''d'' then isDigit c else c = p) (zip s isoPattern))"

definition parseIso :: "jsval \<Rightarrow> string option" where
  "parseIso v = (case v of JStr s \<Rightarrow> if isIsoInstant s then Some s else None | JNum n \<Rightarrow> None)"

definition B0 :: builtins where
  "B0 = \<lparr> parseFloat = parseDecimal, numToString = showNumber, parseDate = parseIso \<rparr>"

definition d0 :: draws where
  "d0 = \<lparr> now_ms = ''1700000000000'', now_iso = ''2023-11-14T22:13:20.000Z'',
          rand36 = ''k3j9x2ab'', rand_user = ''4821'' \<rparr>"

definition d1 :: draws where
  "d1 = \<lparr> now_ms = ''1700000000007'', now_iso = ''2023-11-14T22:13:20.007Z'',
          rand36 = ''q0w8e7r6'', rand_user = ''137'' \<rparr>"

definition atmRow :: feature_row where
  "atmRow = \<lparr> Transaction_ID = ''T1'', Amount = 1500, Merchant = JStr ''Cash Point'',
              Category = ''ATM'', User_ID = JStr ''U1'',
              Timestamp = ''2024-01-01T23:00:00.000Z'', Location = JStr ''Paris'',
              Payment_Method = ''credit_card'', Hour_of_Day = Some 23,
              Is_Night_Transaction = True, Is_Foreign = True \<rparr>"

definition plainRow :: feature_row where
  "plainRow = \<lparr> Transaction_ID = ''T2'', Amount = 50, Merchant = JStr ''Corner Shop'',
                Category = ''Retail'', User_ID = JStr ''U2'',
                Timestamp = ''2024-01-01T12:00:00.000Z'', Location = JStr ''Austin, US'',
                Payment_Method = ''debit_card'', Hour_of_Day = Some 12,
                Is_Night_Transaction = False, Is_Foreign = False \<rparr>"

definition bareRow :: raw_row where
  "bareRow = [''Transaction_ID'' \<mapsto> JStr ''T1'', ''Amount'' \<mapsto> JStr ''5'']"

definition cryptoRow :: raw_row where
  "cryptoRow = [''Transaction_ID'' \<mapsto> JStr '' T7 '', ''Amount'' \<mapsto> JStr ''$1,200.50'',
                ''Category'' \<mapsto> JStr ''Crypto'', ''Payment_Method'' \<mapsto> JStr ''PayPal'']"

definition negativeRow :: raw_row where
  "negativeRow = [''Transaction_ID'' \<mapsto> JStr ''T9'', ''Amount'' \<mapsto> JStr ''$-5'']"

definition prefixRow :: raw_row where
  "prefixRow = [''Transaction_ID'' \<mapsto> JStr ''T3'', ''Amount'' \<mapsto> JStr ''12abc'']"

definition paddedNullRow :: raw_row where
  "paddedNullRow = [''Transaction_ID'' \<mapsto> JStr '' null'', ''Amount'' \<mapsto> JStr ''5'']"


section \<open>Properties of the risk scorer\<close>

lemmas rule_defs = amountRule_def nightRule_def categoryRule_def foreignRule_def
  paymentRule_def earlyRule_def roundRule_def

lemma toFixed4_mono: "x \<le> y \<Longrightarrow> toFixed4 x \<le> toFixed4 y"
  unfolding toFixed4_def by (simp add: divide_right_mono floor_mono)

lemma toFixed4_one: "toFixed4 1 = 1"
  by (simp add: toFixed4_def)


lemma toFixed4_ge_fifth: "0.2 \<le> x \<Longrightarrow> 0.2 \<le> toFixed4 x"
proof -
  assume "0.2 \<le> x"
  then have "toFixed4 0.2 \<le> toFixed4 x" by (rule toFixed4_mono)
  moreover have "toFixed4 0.2 = 0.2" by (simp add: toFixed4_def)
  ultimately show ?thesis by simp
qed


lemma amountRule_sum:
  "sum_list (map fst (amountRule a)) =
     (if a > 1000 then 0.6 else if a > 500 then 0.4 else if a > 100 then 0.2 else 0)"
  by (simp add: amountRule_def)

lemma roundRule_sum:
  "0 \<le> sum_list (map fst (roundRule a)) \<and> sum_list (map fst (roundRule a)) \<le> 0.1"
  by (simp add: roundRule_def)

lemma rules_nonneg:
  "0 \<le> sum_list (map fst (amountRule a))"
  "0 \<le> sum_list (map fst (nightRule n h))"
  "0 \<le> sum_list (map fst (categoryRule c))"
  "0 \<le> sum_list (map fst (foreignRule f))"
  "0 \<le> sum_list (map fst (paymentRule m))"
  "0 \<le> sum_list (map fst (earlyRule hour))"
  "0 \<le> sum_list (map fst (roundRule a))"
  by (simp_all add: rule_defs split: option.splits)

lemma baseScore_ge: "0.2 \<le> baseScore hour row"
proof -
  have "0 \<le> sum_list (map fst (firedRules hour row))"
    unfolding firedRules_def map_append sum_list_append
    by (intro add_nonneg_nonneg rules_nonneg)
  then show ?thesis by (simp add: baseScore_def)
qed


lemma ml_pred_prob_eq:
  "ml_pred_prob (ruleBasedRow hour rnd genId row) = toFixed4 (fraudProb hour rnd row)"
  by (simp add: ruleBasedRow_def Let_def)

lemma js_rem_1500: "js_rem 1500 100 = 0"
  by (simp add: js_rem_def)

lemma firedRules_atmRow:
  "firedRules (Some 23) atmRow =
     [(0.6, ''High transaction amount (>$1000)''), (0.3, ''Night time transaction (high risk)''),
      (0.4, ''ATM transaction (very high risk)''), (0.4, ''Foreign transaction (very high risk)''),
      (0.15, ''Credit card transaction''), (0.1, ''Round number amount (suspicious pattern)'')]"
  by (simp add: firedRules_def rule_defs atmRow_def js_rem_1500)

lemma firedRules_plainRow: "firedRules (Some 12) plainRow = []"
  by (simp add: firedRules_def rule_defs plainRow_def js_rem_def)


text \<open>
  C1 (as stated): with the random term 0, the record with amount 1500, category ATM,
  foreign, credit card and night transaction has base score 2.05 and exactly 5 reasons.
  This fails: 1500 is a multiple of 100, so the round-number rule fires as well. At
  local hour 23 the base score is 2.15 and there are 6 reasons.
\<close>

theorem C1_counterexample:
  "baseScore (Some 23) atmRow = 2.15 \<and> length (reasons (Some 23) atmRow) = 6
   \<and> \<not> (baseScore (Some 23) atmRow = 2.05 \<and> length (reasons (Some 23) atmRow) = 5)"
  by (simp add: baseScore_def reasons_def firedRules_atmRow)

text \<open>
  C1 (amended): with the random term 0, every record with amount 1500, category ATM,
  foreign, credit card and night transaction has base score
  0.2 + 0.6 + 0.3 + 0.4 + 0.4 + 0.15 + 0.1 = 2.15, plus 0.25 when the local hour of its
  timestamp is between 0 and 7; its reasons are, in evaluation order, the five of the
  amount, night, ATM, foreign and credit-card rules, then the early-morning reason when
  that rule fires, then the round-number reason (6 or 7 strings); its probability is
  clamped to 1, its risk level is HIGH and its fraud flag is 1.
\<close>

theorem C1_deterministic_score:
  assumes "Amount row = 1500" and "Category row = ''ATM''" and "Is_Foreign row"
    and "Payment_Method row = ''credit_card''" and "Is_Night_Transaction row"
  shows "baseScore hour row
           = 0.2 + 0.6 + 0.3 + 0.4 + 0.4 + 0.15
             + (case hour of None \<Rightarrow> 0 | Some h \<Rightarrow> if 0 \<le> h \<and> h \<le> 7 then 0.25 else 0) + 0.1
    \<and> reasons hour row
           = [''High transaction amount (>$1000)'', ''Night time transaction (high risk)'',
              ''ATM transaction (very high risk)'', ''Foreign transaction (very high risk)'',
              ''Credit card transaction'']
             @ (case hour of None \<Rightarrow> []
                | Some h \<Rightarrow> if 0 \<le> h \<and> h \<le> 7 then [''Very early morning transaction''] else [])
             @ [''Round number amount (suspicious pattern)'']
    \<and> ml_pred_prob (ruleBasedRow hour 0 genId row) = 1
    \<and> risk_level (ruleBasedRow hour 0 genId row) = ''HIGH''
    \<and> fraud_flag (ruleBasedRow hour 0 genId row) = 1"
proof -
  have f: "firedRules hour row =
     [(0.6, ''High transaction amount (>$1000)''), (0.3, ''Night time transaction (high risk)''),
      (0.4, ''ATM transaction (very high risk)''), (0.4, ''Foreign transaction (very high risk)''),
      (0.15, ''Credit card transaction'')] @ earlyRule hour
      @ [(0.1, ''Round number amount (suspicious pattern)'')]"
    using assms
    by (simp add: firedRules_def amountRule_def nightRule_def categoryRule_def foreignRule_def
        paymentRule_def roundRule_def js_rem_1500)
  have b: "baseScore hour row = 0.2 + 0.6 + 0.3 + 0.4 + 0.4 + 0.15
             + (case hour of None \<Rightarrow> 0 | Some h \<Rightarrow> if 0 \<le> h \<and> h \<le> 7 then 0.25 else 0) + 0.1"
    unfolding baseScore_def f by (simp add: earlyRule_def split: option.splits)
  have r: "reasons hour row
           = [''High transaction amount (>$1000)'', ''Night time transaction (high risk)'',
              ''ATM transaction (very high risk)'', ''Foreign transaction (very high risk)'',
              ''Credit card transaction'']
             @ (case hour of None \<Rightarrow> []
                | Some h \<Rightarrow> if 0 \<le> h \<and> h \<le> 7 then [''Very early morning transaction''] else [])
             @ [''Round number amount (suspicious pattern)'']"
    unfolding reasons_def f by (simp add: earlyRule_def split: option.splits)
  have "baseScore hour row \<ge> 1" unfolding b by (simp split: option.splits)
  then have p: "fraudProb hour 0 row = 1"
    by (simp add: fraudProb_def fraudScore_def)
  show ?thesis using b r p
    by (simp add: ruleBasedRow_def Let_def toFixed4_one getRiskLevel_def)
qed

theorem C1_witness:
  "Amount atmRow = 1500 \<and> Category atmRow = ''ATM'' \<and> Is_Foreign atmRow
   \<and> Payment_Method atmRow = ''credit_card'' \<and> Is_Night_Transaction atmRow
   \<and> baseScore (Some 23) atmRow = 2.15
   \<and> length (reasons (Some 23) atmRow) = 6
   \<and> ml_pred_prob (ruleBasedRow (Some 23) 0 ''TXN-1-a'' atmRow) = 1
   \<and> risk_level (ruleBasedRow (Some 23) 0 ''TXN-1-a'' atmRow) = ''HIGH''
   \<and> fraud_flag (ruleBasedRow (Some 23) 0 ''TXN-1-a'' atmRow) = 1"
proof -
  have h: "Amount atmRow = 1500" "Category atmRow = ''ATM''" "Is_Foreign atmRow"
    "Payment_Method atmRow = ''credit_card''" "Is_Night_Transaction atmRow"
    by (simp_all add: atmRow_def)
  show ?thesis
    using h C1_deterministic_score [OF h, of "Some 23" "''TXN-1-a''"] by simp
qed


text \<open>
  C4 (as stated): on every scored record, the fraud flag is set iff the record's
  probability is above 0.3, and the risk level follows the record's probability.
  This fails on the record that is returned: its probability field is rounded to four
  decimals after the flag and the level were computed. With base score 0.2 and
  \<open>Math.random()\<close> = 0.3334 the probability is 0.30002: the flag is 1 and the record
  holds 0.3.
\<close>

theorem C4_counterexample:
  "fraud_flag (ruleBasedRow (Some 12) 0.3334 ''TXN-1-a'' plainRow) = 1
   \<and> ml_pred_prob (ruleBasedRow (Some 12) 0.3334 ''TXN-1-a'' plainRow) = 0.3
   \<and> \<not> ml_pred_prob (ruleBasedRow (Some 12) 0.3334 ''TXN-1-a'' plainRow) > 0.3"
  by (simp add: ruleBasedRow_def Let_def fraudProb_def fraudScore_def baseScore_def
      firedRules_plainRow toFixed4_def)

text \<open>
  C4 (amended): the fraud flag is 1 iff the clamped probability, before it is rounded
  to four decimals for the record, is above 0.3, and 0 otherwise; the risk level is
  HIGH iff that probability is at least 0.5, MEDIUM iff it is at least 0.3 and below
  0.5, LOW iff it is below 0.3; the probability stored in the record is that value
  rounded to four decimals.
\<close>

theorem C4_flag_and_level:
  "ml_pred_prob (ruleBasedRow hour rnd genId row) = toFixed4 (fraudProb hour rnd row)
   \<and> (fraud_flag (ruleBasedRow hour rnd genId row) = 1 \<longleftrightarrow> fraudProb hour rnd row > 0.3)
   \<and> (fraud_flag (ruleBasedRow hour rnd genId row) = 0 \<longleftrightarrow> \<not> fraudProb hour rnd row > 0.3)
   \<and> (risk_level (ruleBasedRow hour rnd genId row) = ''HIGH'' \<longleftrightarrow> fraudProb hour rnd row \<ge> 0.5)
   \<and> (risk_level (ruleBasedRow hour rnd genId row) = ''MEDIUM''
        \<longleftrightarrow> 0.3 \<le> fraudProb hour rnd row \<and> fraudProb hour rnd row < 0.5)
   \<and> (risk_level (ruleBasedRow hour rnd genId row) = ''LOW'' \<longleftrightarrow> fraudProb hour rnd row < 0.3)"
  by (simp add: ruleBasedRow_def Let_def getRiskLevel_def)

theorem C4_witness:
  "fraudProb (Some 12) 0.3334 plainRow = 0.30002
   \<and> fraud_flag (ruleBasedRow (Some 12) 0.3334 ''TXN-1-a'' plainRow) = 1
   \<and> risk_level (ruleBasedRow (Some 12) 0.3334 ''TXN-1-a'' plainRow) = ''MEDIUM''"
proof -
  have p: "fraudProb (Some 12) 0.3334 plainRow = 0.30002"
    by (simp add: fraudProb_def fraudScore_def baseScore_def firedRules_plainRow)
  show ?thesis
    using C4_flag_and_level [of "Some 12" "0.3334" "''TXN-1-a''" plainRow] unfolding p by simp
qed





text \<open>
  C9: with every other feature and the timestamp fixed, raising the amount from a value
  at or below a tier boundary (100, 500 or 1000) to a value above that boundary never
  lowers the base score, the score before the random term.
\<close>

theorem C9_amount_tiers_monotone:
  assumes "B \<in> {100, 500, 1000}" and "a \<le> B" and "B < b"
  shows "baseScore hour (row\<lparr>Amount := a\<rparr>) \<le> baseScore hour (row\<lparr>Amount := b\<rparr>)"
proof -
  have t: "sum_list (map fst (amountRule a)) + 0.2 \<le> sum_list (map fst (amountRule b))"
    using assms unfolding amountRule_sum by auto
  have r: "sum_list (map fst (roundRule a)) \<le> 0.1" "0 \<le> sum_list (map fst (roundRule b))"
    using roundRule_sum by auto
  show ?thesis
    unfolding baseScore_def firedRules_def map_append sum_list_append
    using t r by simp
qed

theorem C9_witness:
  "(500::real) \<in> {100, 500, 1000} \<and> (500::real) \<le> 500 \<and> (500::real) < 501
   \<and> baseScore (Some 12) (plainRow\<lparr>Amount := 500\<rparr>) \<le> baseScore (Some 12) (plainRow\<lparr>Amount := 501\<rparr>)"
proof -
  have h: "(500::real) \<in> {100, 500, 1000}" "(500::real) \<le> 500" "(500::real) < 501" by simp_all
  show ?thesis
    using h C9_amount_tiers_monotone [OF h, of "Some 12" plainRow] by blast
qed


text \<open>
  Inside a tier the round-number rule can lower the score when the amount grows: 200 is
  a multiple of 100 and 201 is not.
\<close>

lemma baseScore_dip_inside_tier:
  "baseScore (Some 12) (plainRow\<lparr>Amount := 200\<rparr>) = 0.5
   \<and> baseScore (Some 12) (plainRow\<lparr>Amount := 201\<rparr>) = 0.4"
  by (simp add: baseScore_def firedRules_def rule_defs plainRow_def js_rem_def)


text \<open>
  C10: for every row and every non-negative random value, the probability is at least
  0.2: the base score starts at 0.2 and every rule adds a non-negative increment. The
  lower clamp at 0.1 is never the binding bound, and no record has a probability in
  [0.1, 0.2).
\<close>

theorem C10_probability_at_least_fifth:
  assumes "0 \<le> rnd"
  shows "0.2 \<le> baseScore hour row
    \<and> 0.2 \<le> fraudProb hour rnd row
    \<and> fraudProb hour rnd row = min 1 (fraudScore hour rnd row)
    \<and> 0.2 \<le> ml_pred_prob (ruleBasedRow hour rnd genId row)
    \<and> \<not> (0.1 \<le> ml_pred_prob (ruleBasedRow hour rnd genId row)
         \<and> ml_pred_prob (ruleBasedRow hour rnd genId row) < 0.2)"
proof -
  have s: "0.2 \<le> fraudScore hour rnd row"
    using baseScore_ge [of hour row] assms by (simp add: fraudScore_def)
  then have p: "0.2 \<le> fraudProb hour rnd row"
    "fraudProb hour rnd row = min 1 (fraudScore hour rnd row)"
    by (auto simp: fraudProb_def)
  have m: "0.2 \<le> toFixed4 (fraudProb hour rnd row)"
    using p(1) by (rule toFixed4_ge_fifth)
  show ?thesis
    unfolding ml_pred_prob_eq using baseScore_ge [of hour row] p m by auto
qed

theorem C10_witness:
  "(0::real) \<le> 0
   \<and> 0.2 \<le> fraudProb (Some 12) 0 plainRow
   \<and> fraudProb (Some 12) 0 plainRow = min 1 (fraudScore (Some 12) 0 plainRow)
   \<and> 0.2 \<le> ml_pred_prob (ruleBasedRow (Some 12) 0 ''TXN-1-a'' plainRow)"
proof -
  have h: "(0::real) \<le> 0" by simp
  show ?thesis
    using h C10_probability_at_least_fifth [OF h, of "Some 12" plainRow "''TXN-1-a''"] by blast
qed


section \<open>Properties of the normalizer\<close>

lemmas string_defs = trim_def isSpace_def toLowerCase_def lowerChar_def upperAZ_def lowerAZ_def

lemmas parse_defs = parseDecimal_def isDigit_def digitChars_def digitsVal_def
  digitVal_def stripCurrency_def toStr_def

lemma normalizeCategory_valid:
  assumes "normalizeCategory row = Inr c"
  shows "c \<in> set validCategories"
proof (cases "truthy (categoryField row)")
  case False
  with assms show ?thesis by (simp add: normalizeCategory_def validCategories_def)
next
  case True
  show ?thesis
  proof (cases "categoryField row")
    case None
    with True show ?thesis by simp
  next
    case (Some v)
    show ?thesis
    proof (cases v)
      case (JNum n)
      with True Some assms show ?thesis by (simp add: normalizeCategory_def)
    next
      case (JStr s)
      show ?thesis
      proof (cases "find (\<lambda>cat. toLowerCase cat = toLowerCase s) validCategories")
        case None
        with True Some JStr assms show ?thesis
          by (simp add: normalizeCategory_def) (simp add: validCategories_def)
      next
        case (Some m)
        then have "m \<in> set validCategories"
          by (auto simp: find_Some_iff)
        moreover from this have "m \<noteq> []" by (auto simp: validCategories_def)
        ultimately show ?thesis
          using True \<open>categoryField row = Some v\<close> JStr Some assms
          by (simp add: normalizeCategory_def)
      qed
    qed
  qed
qed

lemma normalizeCategory_unmatched:
  assumes "categoryField row = Some (JStr s)"
    and "\<forall>cat \<in> set validCategories. toLowerCase cat \<noteq> toLowerCase s"
  shows "normalizeCategory row = Inr ''Other''"
proof -
  have "find (\<lambda>cat. toLowerCase cat = toLowerCase s) validCategories = None"
    using assms(2) by (simp add: find_None_iff)
  then show ?thesis using assms(1) by (simp add: normalizeCategory_def)
qed

lemma normalizeAmount_positive: "normalizeAmount B row = Some x \<Longrightarrow> 0 < x"
  by (auto simp: normalizeAmount_def split: option.splits if_splits)

lemma normalizeAmount_rejects:
  assumes "amountField row = Some v"
    and "parseFloat B (stripCurrency (toStr B v)) = None
         \<or> (\<exists>x. parseFloat B (stripCurrency (toStr B v)) = Some x \<and> x \<le> 0)"
  shows "normalizeAmount B row = None"
  using assms by (auto simp: normalizeAmount_def)

lemma cleanRow_Some:
  assumes "cleanRow B d row = Some c"
  shows "Transaction_ID c \<noteq> [] \<and> 0 < Amount c \<and> Category c \<in> set validCategories
         \<and> normalizeAmount B row = Some (Amount c)"
proof -
  from assms obtain cat pm amt where
    n: "normalizeCategory row = Inr cat" "normalizePaymentMethod row = Inr pm"
       "normalizeAmount B row = Some amt"
    by (auto simp: cleanRow_def split: sum.splits option.splits)
  with assms have c: "Transaction_ID c = normalizeTransactionId B d row"
    "normalizeTransactionId B d row \<noteq> []" "Amount c = amt" "Category c = cat"
    by (auto simp: cleanRow_def split: if_splits)
  show ?thesis
    using c n normalizeCategory_valid [OF n(1)] normalizeAmount_positive [OF n(3)] by simp
qed

lemma cleanRow_no_amount: "normalizeAmount B row = None \<Longrightarrow> cleanRow B d row = None"
  by (simp add: cleanRow_def split: sum.splits)

lemma cleanData_append: "cleanData B (xs @ ys) = cleanData B xs @ cleanData B ys"
  by (simp add: cleanData_def List.map_filter_def)

lemma cleanData_Cons:
  "cleanData B ((d, row) # ys) =
     (if isValidRow row then (case cleanRow B d row of None \<Rightarrow> [] | Some c \<Rightarrow> [c]) else [])
     @ cleanData B ys"
  by (simp add: cleanData_def split: option.splits)

lemma cleanData_length: "length (cleanData B data) \<le> length data"
proof (induction data)
  case Nil
  show ?case by (simp add: cleanData_def)
next
  case (Cons p data)
  obtain d row where p: "p = (d, row)" by (cases p)
  show ?case
    unfolding p cleanData_Cons using Cons.IH by (simp split: option.splits)
qed

lemma cleanData_member:
  assumes "c \<in> set (cleanData B data)"
  shows "\<exists>p \<in> set data. isValidRow (snd p) \<and> cleanRow B (fst p) (snd p) = Some c"
  using assms
proof (induction data)
  case Nil
  then show ?case by (simp add: cleanData_def)
next
  case (Cons q data)
  obtain d row where q: "q = (d, row)" by (cases q)
  from Cons.prems have
    "(isValidRow row \<and> cleanRow B d row = Some c) \<or> c \<in> set (cleanData B data)"
    unfolding q cleanData_Cons
    by (cases "isValidRow row"; cases "cleanRow B d row"; simp; blast)
  then show ?case
  proof
    assume "isValidRow row \<and> cleanRow B d row = Some c"
    then show ?thesis unfolding q by simp
  next
    assume "c \<in> set (cleanData B data)"
    from Cons.IH [OF this] show ?thesis by auto
  qed
qed

lemmas norm_defs = cleanData_Cons isValidRow_def orElse_def isEmpty_def cleanRow_def
  normalizeCategory_def categoryField_def validCategories_def normalizePaymentMethod_def
  paymentField_def normalizedMethod_def validMethods_def normalizeAmount_def amountField_def
  normalizeTransactionId_def normalizeMerchant_def normalizeUserId_def normalizeTimestamp_def
  normalizeLocation_def orDefault_def B0_def d0_def d1_def string_defs parse_defs

lemma cleanData_Nil: "cleanData B [] = []"
  by (simp add: cleanData_def)

lemma cleanData_bareRow:
  "cleanData B0 [(d0, bareRow)] =
     [\<lparr> Transaction_ID = ''T1'', Amount = 5, Merchant = JStr ''Unknown Merchant'',
        Category = ''Other'', User_ID = JStr ''USER-4821'',
        Timestamp = ''2023-11-14T22:13:20.000Z'', Location = JStr ''Unknown'',
        Payment_Method = ''credit_card'' \<rparr>]"
  by (simp add: norm_defs cleanData_Nil bareRow_def)

lemma cleanData_cryptoRow:
  "cleanData B0 [(d0, cryptoRow)] =
     [\<lparr> Transaction_ID = ''T7'', Amount = 1200.5, Merchant = JStr ''Unknown Merchant'',
        Category = ''Other'', User_ID = JStr ''USER-4821'',
        Timestamp = ''2023-11-14T22:13:20.000Z'', Location = JStr ''Unknown'',
        Payment_Method = ''other'' \<rparr>]"
  by (simp add: norm_defs cleanData_Nil cryptoRow_def)

lemma cleanData_paddedNullRow:
  "cleanData B0 [(d0, paddedNullRow)] =
     [\<lparr> Transaction_ID = ''null'', Amount = 5, Merchant = JStr ''Unknown Merchant'',
        Category = ''Other'', User_ID = JStr ''USER-4821'',
        Timestamp = ''2023-11-14T22:13:20.000Z'', Location = JStr ''Unknown'',
        Payment_Method = ''credit_card'' \<rparr>]"
  by (simp add: norm_defs cleanData_Nil paddedNullRow_def)

lemma cleanData_prefixRow:
  "cleanData B0 [(d0, prefixRow)] =
     [\<lparr> Transaction_ID = ''T3'', Amount = 12, Merchant = JStr ''Unknown Merchant'',
        Category = ''Other'', User_ID = JStr ''USER-4821'',
        Timestamp = ''2023-11-14T22:13:20.000Z'', Location = JStr ''Unknown'',
        Payment_Method = ''credit_card'' \<rparr>]"
  by (simp add: norm_defs cleanData_Nil prefixRow_def)

lemma showNumber_5: "showNumber 5 = ''5''"
  by (simp add: showNumber_def showNat.simps digitChars_def)

lemma isIsoInstant_d0: "isIsoInstant ''2023-11-14T22:13:20.000Z''"
  by (simp add: isIsoInstant_def isoPattern_def isDigit_def digitChars_def)

lemma cleanData_again:
  "cleanData B0
     [(d1, asRaw \<lparr> Transaction_ID = ''null'', Amount = 5, Merchant = JStr ''Unknown Merchant'',
                    Category = ''Other'', User_ID = JStr ''USER-4821'',
                    Timestamp = ''2023-11-14T22:13:20.000Z'', Location = JStr ''Unknown'',
                    Payment_Method = ''credit_card'' \<rparr>)] =
     [\<lparr> Transaction_ID = ''TXN-1700000000007-q0w8e7r6'', Amount = 5,
        Merchant = JStr ''Unknown Merchant'', Category = ''Other'',
        User_ID = JStr ''USER-4821'', Timestamp = ''2023-11-14T22:13:20.000Z'',
        Location = JStr ''Unknown'', Payment_Method = ''credit_card'' \<rparr>]"
  by (simp add: norm_defs cleanData_Nil asRaw_def showNumber_5 parseIso_def isIsoInstant_d0)


text \<open>
  C3 (as stated): every payment-method value that does not match the enumeration,
  an absent payment-method field included, folds to \<open>other\<close>. This fails for the absent
  field: a row with no payment-method column is given \<open>credit_card\<close>.
\<close>

theorem C3_counterexample:
  "paymentField bareRow = None
   \<and> normalizePaymentMethod bareRow = Inr ''credit_card''
   \<and> normalizePaymentMethod bareRow \<noteq> Inr ''other''
   \<and> map Payment_Method (cleanData B0 [(d0, bareRow)]) = [''credit_card'']"
  by (simp add: cleanData_bareRow)
    (simp add: normalizePaymentMethod_def paymentField_def orElse_def bareRow_def)

text \<open>
  C3 (amended): for every raw row, a normalized payment method is a member of
  {credit_card, debit_card, bank_transfer, digital_wallet, other}. A payment-method
  value that is a non-empty string (as every value read from a CSV file is) never
  causes the row to be rejected: lower-cased and with every character outside a-z
  replaced by an underscore, it is kept when it is in the enumeration and folds to
  \<open>other\<close> when it is not. An absent or empty payment-method field becomes
  \<open>credit_card\<close>.
\<close>

theorem C3_payment_method:
  "(normalizePaymentMethod row = Inr m
      \<longrightarrow> m \<in> {''credit_card'', ''debit_card'', ''bank_transfer'', ''digital_wallet'', ''other''})
   \<and> (\<not> truthy (paymentField row) \<longrightarrow> normalizePaymentMethod row = Inr ''credit_card'')
   \<and> (paymentField row = Some (JStr s) \<and> s \<noteq> []
      \<longrightarrow> normalizePaymentMethod row
            = Inr (if normalizedMethod s \<in> set validMethods then normalizedMethod s else ''other''))"
proof -
  have mem: "m \<in> {''credit_card'', ''debit_card'', ''bank_transfer'', ''digital_wallet'', ''other''}"
    if r: "normalizePaymentMethod row = Inr m"
  proof (cases "truthy (paymentField row)")
    case False
    with r show ?thesis by (simp add: normalizePaymentMethod_def)
  next
    case True
    then obtain v where v: "paymentField row = Some v" by (cases "paymentField row") simp_all
    show ?thesis
    proof (cases v)
      case (JNum n)
      with True v r show ?thesis by (simp add: normalizePaymentMethod_def)
    next
      case (JStr t)
      show ?thesis
      proof (cases "normalizedMethod t \<in> set validMethods")
        case True
        then have "normalizePaymentMethod row = Inr (normalizedMethod t)"
          using \<open>truthy (paymentField row)\<close> v JStr by (simp add: normalizePaymentMethod_def)
        with r have "m = normalizedMethod t" by simp
        with True show ?thesis by (simp add: validMethods_def)
      next
        case False
        then have "normalizePaymentMethod row = Inr ''other''"
          using \<open>truthy (paymentField row)\<close> v JStr by (simp add: normalizePaymentMethod_def)
        with r show ?thesis by simp
      qed
    qed
  qed
  have absent: "normalizePaymentMethod row = Inr ''credit_card''"
    if "\<not> truthy (paymentField row)"
    using that by (simp add: normalizePaymentMethod_def)
  have str: "normalizePaymentMethod row
            = Inr (if normalizedMethod s \<in> set validMethods then normalizedMethod s else ''other'')"
    if "paymentField row = Some (JStr s) \<and> s \<noteq> []"
    using that by (simp add: normalizePaymentMethod_def)
  from mem absent str show ?thesis by blast
qed

theorem C3_witness:
  "paymentField cryptoRow = Some (JStr ''PayPal'')
   \<and> normalizedMethod ''PayPal'' = ''paypal''
   \<and> normalizePaymentMethod cryptoRow = Inr ''other''"
proof -
  have p: "paymentField cryptoRow = Some (JStr ''PayPal'')"
    by (simp add: paymentField_def orElse_def cryptoRow_def)
  have n: "normalizedMethod ''PayPal'' = ''paypal''"
    by (simp add: normalizedMethod_def string_defs)
  have v: "''paypal'' \<notin> set validMethods" by (simp add: validMethods_def)
  have "normalizePaymentMethod cryptoRow
          = Inr (if normalizedMethod ''PayPal'' \<in> set validMethods
                 then normalizedMethod ''PayPal'' else ''other'')"
    using C3_payment_method [of cryptoRow "''other''" "''PayPal''"] p by blast
  with p n v show ?thesis by simp
qed


text \<open>
  C6 (as stated): every raw row whose amount is non-numeric, zero or negative after the
  currency signs and thousands separators are stripped is absent from the output of
  the normalizer. This fails for an amount that is not a number but begins with one:
  \<open>parseFloat\<close> reads the longest numeric prefix, so the row with amount \<open>12abc\<close> is
  kept, with amount 12.
\<close>

theorem C6_counterexample:
  "amountField prefixRow = Some (JStr ''12abc'')
   \<and> stripCurrency ''12abc'' = ''12abc''
   \<and> normalizeAmount B0 prefixRow = Some 12
   \<and> map Transaction_ID (cleanData B0 [(d0, prefixRow)]) = [''T3'']
   \<and> map Amount (cleanData B0 [(d0, prefixRow)]) = [12]
   \<and> cleanData B0 [(d0, prefixRow)] \<noteq> []"
  by (simp add: cleanData_prefixRow)
    (simp add: normalizeAmount_def amountField_def orElse_def isEmpty_def prefixRow_def B0_def
      string_defs parse_defs)

text \<open>
  C6 (amended): a raw row whose amount value, after the currency signs and thousands
  separators are stripped, is read by \<open>parseFloat\<close> as NaN (it has no numeric prefix) or
  as zero or a negative number is absent from the output of the normalizer: the output
  of a batch is the output of the batch without that row. The number of output rows
  never exceeds the number of input rows.
\<close>

theorem C6_amount_rejection:
  assumes "amountField row = Some v"
    and "parseFloat B (stripCurrency (toStr B v)) = None
         \<or> (\<exists>x. parseFloat B (stripCurrency (toStr B v)) = Some x \<and> x \<le> 0)"
  shows "cleanData B [(d, row)] = []
    \<and> cleanData B (xs @ (d, row) # ys) = cleanData B (xs @ ys)
    \<and> length (cleanData B data) \<le> length data"
proof -
  have "cleanRow B d row = None"
    using assms by (intro cleanRow_no_amount normalizeAmount_rejects)
  then have e: "cleanData B [(d, row)] = []"
    by (simp add: cleanData_Cons cleanData_Nil)
  have "cleanData B (xs @ (d, row) # ys) = cleanData B xs @ cleanData B [(d, row)] @ cleanData B ys"
    using cleanData_append [of B xs "[(d, row)] @ ys"] cleanData_append [of B "[(d, row)]" ys]
    by simp
  then have "cleanData B (xs @ (d, row) # ys) = cleanData B (xs @ ys)"
    unfolding e by (simp add: cleanData_append)
  with e cleanData_length show ?thesis by blast
qed

theorem C6_witness:
  "amountField negativeRow = Some (JStr ''$-5'')
   \<and> parseFloat B0 (stripCurrency (toStr B0 (JStr ''$-5''))) = Some (- 5)
   \<and> cleanData B0 [(d0, negativeRow)] = []
   \<and> cleanData B0 ([(d0, bareRow)] @ (d0, negativeRow) # [(d1, cryptoRow)])
       = cleanData B0 ([(d0, bareRow)] @ [(d1, cryptoRow)])
   \<and> length (cleanData B0 [(d0, bareRow), (d0, negativeRow), (d1, cryptoRow)])
       \<le> length [(d0, bareRow), (d0, negativeRow), (d1, cryptoRow)]"
proof -
  have a: "amountField negativeRow = Some (JStr ''$-5'')"
    by (simp add: amountField_def orElse_def negativeRow_def)
  have p: "parseFloat B0 (stripCurrency (toStr B0 (JStr ''$-5''))) = Some (- 5)"
    by (simp add: B0_def parse_defs isSpace_def)
  have h: "parseFloat B0 (stripCurrency (toStr B0 (JStr ''$-5''))) = None
         \<or> (\<exists>x. parseFloat B0 (stripCurrency (toStr B0 (JStr ''$-5''))) = Some x \<and> x \<le> 0)"
    unfolding p by simp
  show ?thesis
    using a p C6_amount_rejection [OF a h, of d0 "[(d0, bareRow)]" "[(d1, cryptoRow)]"
        "[(d0, bareRow), (d0, negativeRow), (d1, cryptoRow)]"]
    by blast
qed


text \<open>
  C7: every record the normalizer produces has a non-empty transaction identifier, a
  strictly positive amount and a category among E-commerce, Retail, Gas, Food, ATM,
  Online and Other; a category value that matches none of them, whatever the case of
  its letters, yields Other, as \<open>Crypto\<close> does.
\<close>

theorem C7_normalized_invariant:
  "(c \<in> set (cleanData B data) \<longrightarrow>
      Transaction_ID c \<noteq> [] \<and> 0 < Amount c
      \<and> Category c \<in> {''E-commerce'', ''Retail'', ''Gas'', ''Food'', ''ATM'', ''Online'', ''Other''})
   \<and> (categoryField row = Some (JStr s)
        \<and> (\<forall>cat \<in> set validCategories. toLowerCase cat \<noteq> toLowerCase s)
      \<longrightarrow> normalizeCategory row = Inr ''Other'')
   \<and> normalizeCategory [''Category'' \<mapsto> JStr ''Crypto''] = Inr ''Other''"
proof -
  have inv: "Transaction_ID c \<noteq> [] \<and> 0 < Amount c
      \<and> Category c \<in> {''E-commerce'', ''Retail'', ''Gas'', ''Food'', ''ATM'', ''Online'', ''Other''}"
    if "c \<in> set (cleanData B data)"
  proof -
    from that obtain p where "cleanRow B (fst p) (snd p) = Some c"
      using cleanData_member by blast
    from cleanRow_Some [OF this] show ?thesis
      by (simp add: validCategories_def)
  qed
  have fold: "normalizeCategory row = Inr ''Other''"
    if "categoryField row = Some (JStr s)
        \<and> (\<forall>cat \<in> set validCategories. toLowerCase cat \<noteq> toLowerCase s)"
    using that normalizeCategory_unmatched by blast
  have crypto: "normalizeCategory [''Category'' \<mapsto> JStr ''Crypto''] = Inr ''Other''"
    by (simp add: normalizeCategory_def categoryField_def orElse_def validCategories_def
        string_defs)
  from inv fold crypto show ?thesis by blast
qed

theorem C7_witness:
  "cleanData B0 [(d0, cryptoRow)] =
     [\<lparr> Transaction_ID = ''T7'', Amount = 1200.5, Merchant = JStr ''Unknown Merchant'',
        Category = ''Other'', User_ID = JStr ''USER-4821'',
        Timestamp = ''2023-11-14T22:13:20.000Z'', Location = JStr ''Unknown'',
        Payment_Method = ''other'' \<rparr>]
   \<and> categoryField cryptoRow = Some (JStr ''Crypto'')
   \<and> normalizeCategory cryptoRow = Inr ''Other''"
proof -
  let ?c = "\<lparr> Transaction_ID = ''T7'', Amount = 1200.5, Merchant = JStr ''Unknown Merchant'',
        Category = ''Other'', User_ID = JStr ''USER-4821'',
        Timestamp = ''2023-11-14T22:13:20.000Z'', Location = JStr ''Unknown'',
        Payment_Method = ''other'' \<rparr>"
  have m: "?c \<in> set (cleanData B0 [(d0, cryptoRow)])"
    by (simp add: cleanData_cryptoRow)
  have f: "categoryField cryptoRow = Some (JStr ''Crypto'')"
    by (simp add: categoryField_def orElse_def cryptoRow_def)
  have u: "\<forall>cat \<in> set validCategories. toLowerCase cat \<noteq> toLowerCase ''Crypto''"
    by (simp add: validCategories_def string_defs)
  from C7_normalized_invariant [of ?c B0 "[(d0, cryptoRow)]" cryptoRow "''Crypto''"] m f u
  have "normalizeCategory cryptoRow = Inr ''Other''" by blast
  with f show ?thesis by (simp add: cleanData_cryptoRow)
qed



text \<open>
  A second pass over a cleaned record: apart from the identifiers \<open>null\<close> and
  \<open>undefined\<close>, it leaves every field but the timestamp as it is, provided the amount
  survives printing and parsing.
\<close>

lemma asRaw_lookup:
  "asRaw c ''Transaction_ID'' = Some (JStr (Transaction_ID c))"
  "asRaw c ''TransactionID'' = None"
  "asRaw c ''transaction_id'' = None"
  "asRaw c ''id'' = None"
  "asRaw c ''Amount'' = Some (JNum (Amount c))"
  "asRaw c ''amount'' = None"
  "asRaw c ''AMOUNT'' = None"
  "asRaw c ''Merchant'' = Some (Merchant c)"
  "asRaw c ''merchant'' = None"
  "asRaw c ''MERCHANT'' = None"
  "asRaw c ''merchant_name'' = None"
  "asRaw c ''Category'' = Some (JStr (Category c))"
  "asRaw c ''category'' = None"
  "asRaw c ''CATEGORY'' = None"
  "asRaw c ''merchant_category'' = None"
  "asRaw c ''User_ID'' = Some (User_ID c)"
  "asRaw c ''UserID'' = None"
  "asRaw c ''user_id'' = None"
  "asRaw c ''customer_id'' = None"
  "asRaw c ''Location'' = Some (Location c)"
  "asRaw c ''location'' = None"
  "asRaw c ''LOCATION'' = None"
  "asRaw c ''city'' = None"
  "asRaw c ''Payment_Method'' = Some (JStr (Payment_Method c))"
  "asRaw c ''payment_method'' = None"
  "asRaw c ''PaymentMethod'' = None"
  "asRaw c ''card_type'' = None"
  by (simp_all add: asRaw_def)

lemma find_valid_each:
  "find (\<lambda>cat. toLowerCase cat = toLowerCase ''E-commerce'') validCategories = Some ''E-commerce''"
  "find (\<lambda>cat. toLowerCase cat = toLowerCase ''Retail'') validCategories = Some ''Retail''"
  "find (\<lambda>cat. toLowerCase cat = toLowerCase ''Gas'') validCategories = Some ''Gas''"
  "find (\<lambda>cat. toLowerCase cat = toLowerCase ''Food'') validCategories = Some ''Food''"
  "find (\<lambda>cat. toLowerCase cat = toLowerCase ''ATM'') validCategories = Some ''ATM''"
  "find (\<lambda>cat. toLowerCase cat = toLowerCase ''Online'') validCategories = Some ''Online''"
  "find (\<lambda>cat. toLowerCase cat = toLowerCase ''Other'') validCategories = Some ''Other''"
  by (simp_all add: validCategories_def string_defs)

lemma find_valid:
  assumes "s \<in> set validCategories"
  shows "find (\<lambda>cat. toLowerCase cat = toLowerCase s) validCategories = Some s"
proof -
  from assms have "s = ''E-commerce'' \<or> s = ''Retail'' \<or> s = ''Gas'' \<or> s = ''Food''
    \<or> s = ''ATM'' \<or> s = ''Online'' \<or> s = ''Other''"
    unfolding validCategories_def by simp
  then show ?thesis by (elim disjE) (simp_all only: find_valid_each)
qed

lemma normalizedMethod_each:
  "normalizedMethod ''credit_card'' = ''credit_card''"
  "normalizedMethod ''debit_card'' = ''debit_card''"
  "normalizedMethod ''bank_transfer'' = ''bank_transfer''"
  "normalizedMethod ''digital_wallet'' = ''digital_wallet''"
  "normalizedMethod ''other'' = ''other''"
  by (simp_all add: normalizedMethod_def string_defs)

lemma normalizedMethod_valid:
  assumes "m \<in> set validMethods"
  shows "normalizedMethod m = m"
proof -
  from assms have "m = ''credit_card'' \<or> m = ''debit_card'' \<or> m = ''bank_transfer''
    \<or> m = ''digital_wallet'' \<or> m = ''other''"
    unfolding validMethods_def by simp
  then show ?thesis by (elim disjE) (simp_all only: normalizedMethod_each)
qed

lemma normalizeCategory_asRaw:
  assumes "Category c \<in> set validCategories"
  shows "normalizeCategory (asRaw c) = Inr (Category c)"
proof -
  from assms have ne: "Category c \<noteq> []" unfolding validCategories_def by fastforce
  then have f: "categoryField (asRaw c) = Some (JStr (Category c))"
    by (simp add: categoryField_def orElse_def asRaw_lookup)
  show ?thesis
    unfolding normalizeCategory_def Let_def f using ne find_valid [OF assms] by simp
qed

lemma normalizePaymentMethod_asRaw:
  assumes "Payment_Method c \<in> set validMethods"
  shows "normalizePaymentMethod (asRaw c) = Inr (Payment_Method c)"
proof -
  from assms have ne: "Payment_Method c \<noteq> []" unfolding validMethods_def by fastforce
  then have f: "paymentField (asRaw c) = Some (JStr (Payment_Method c))"
    by (simp add: paymentField_def orElse_def asRaw_lookup)
  show ?thesis
    unfolding normalizePaymentMethod_def Let_def f
    using ne assms normalizedMethod_valid [OF assms] by simp
qed

lemma normalizeAmount_asRaw:
  assumes "0 < Amount c"
    and "parseFloat B (stripCurrency (numToString B (Amount c))) = Some (Amount c)"
  shows "normalizeAmount B (asRaw c) = Some (Amount c)"
proof -
  have f: "amountField (asRaw c) = Some (JNum (Amount c))"
    using assms(1) by (simp add: amountField_def orElse_def asRaw_lookup)
  show ?thesis
    using assms by (simp add: normalizeAmount_def f isEmpty_def toStr_def)
qed

lemma normalizeTransactionId_asRaw:
  assumes "Transaction_ID c \<noteq> []" and "trim (Transaction_ID c) = Transaction_ID c"
    and "Transaction_ID c \<noteq> ''null''" and "Transaction_ID c \<noteq> ''undefined''"
  shows "normalizeTransactionId B d (asRaw c) = Transaction_ID c"
proof -
  have "orElse (orElse (orElse (asRaw c ''Transaction_ID'') (asRaw c ''TransactionID''))
          (asRaw c ''transaction_id'')) (asRaw c ''id'') = Some (JStr (Transaction_ID c))"
    using assms(1) by (simp add: orElse_def asRaw_lookup)
  then show ?thesis
    unfolding normalizeTransactionId_def Let_def
    using assms by (simp add: toStr_def)
qed

lemma cleanData_asRaw:
  assumes "Transaction_ID c \<noteq> []" and "trim (Transaction_ID c) = Transaction_ID c"
    and "Transaction_ID c \<noteq> ''null''" and "Transaction_ID c \<noteq> ''undefined''"
    and "0 < Amount c"
    and "parseFloat B (stripCurrency (numToString B (Amount c))) = Some (Amount c)"
    and "truthy (Some (Merchant c))" and "truthy (Some (User_ID c))"
    and "truthy (Some (Location c))"
    and "Category c \<in> set validCategories" and "Payment_Method c \<in> set validMethods"
  shows "cleanData B [(d, asRaw c)] = [c\<lparr>Timestamp := normalizeTimestamp B d (asRaw c)\<rparr>]"
proof -
  have v: "isValidRow (asRaw c)"
    using assms(1,5) by (simp add: isValidRow_def orElse_def asRaw_lookup isEmpty_def)
  have m: "normalizeMerchant (asRaw c) = Merchant c"
    using assms(7) by (simp add: normalizeMerchant_def orElse_def orDefault_def asRaw_lookup)
  have u: "normalizeUserId d (asRaw c) = User_ID c"
    using assms(8) by (simp add: normalizeUserId_def orElse_def orDefault_def asRaw_lookup)
  have l: "normalizeLocation (asRaw c) = Location c"
    using assms(9) by (simp add: normalizeLocation_def orElse_def orDefault_def asRaw_lookup)
  have a: "normalizeAmount B (asRaw c) = Some (Amount c)"
    using assms(5,6) by (rule normalizeAmount_asRaw)
  have t: "normalizeTransactionId B d (asRaw c) = Transaction_ID c"
    using assms(1-4) by (rule normalizeTransactionId_asRaw)
  have r: "cleanRow B d (asRaw c) =
     Some \<lparr> Transaction_ID = Transaction_ID c, Amount = Amount c, Merchant = Merchant c,
            Category = Category c, User_ID = User_ID c,
            Timestamp = normalizeTimestamp B d (asRaw c), Location = Location c,
            Payment_Method = Payment_Method c \<rparr>"
    unfolding cleanRow_def normalizeCategory_asRaw [OF assms(10)]
        normalizePaymentMethod_asRaw [OF assms(11)] a t m u l
    using assms(1,5) by simp
  have "\<lparr> Transaction_ID = Transaction_ID c, Amount = Amount c, Merchant = Merchant c,
            Category = Category c, User_ID = User_ID c,
            Timestamp = normalizeTimestamp B d (asRaw c), Location = Location c,
            Payment_Method = Payment_Method c \<rparr>
        = c\<lparr>Timestamp := normalizeTimestamp B d (asRaw c)\<rparr>"
    by (cases c) simp
  with r v show ?thesis by (simp add: cleanData_Cons cleanData_Nil)
qed


text \<open>
  C8: normalizing a record that is already normalized gives the same record, the format
  of the timestamp apart. The code does not do this on the row whose identifier is
  \<open>null\<close> preceded by a space: the first pass trims the identifier to \<open>null\<close>, and the
  second pass takes \<open>null\<close> for a missing identifier and generates a new one.
\<close>

theorem C8_not_idempotent:
  "map Transaction_ID (cleanData B0 [(d0, paddedNullRow)]) = [''null'']
   \<and> map Transaction_ID
       (cleanData B0 (map (Pair d1) (map asRaw (cleanData B0 [(d0, paddedNullRow)]))))
     = [''TXN-1700000000007-q0w8e7r6'']"
  by (simp add: cleanData_paddedNullRow cleanData_again)


section \<open>Properties of the alert documents\<close>

lemma alertDocs_filter:
  "alertDocs now predictions =
     map (alertDoc now)
       (filter (\<lambda>pred. (risk_level pred = ''HIGH'' \<or> fraud_flag pred = 1) \<and> pred_id pred \<noteq> [])
          predictions)"
  by (induction predictions) (simp_all add: alertDocs_def alertDoc_def field_def docTruthy_def)

lemma alertDoc_no_status: "field ''status'' (alertDoc now pred) = None"
  by (simp add: alertDoc_def field_def)

lemma alertDocs_no_status: "doc \<in> set (alertDocs now predictions) \<Longrightarrow> field ''status'' doc = None"
  unfolding alertDocs_filter using alertDoc_no_status by auto

text \<open>
  C2: the alerts generated are exactly the scored records with risk level HIGH or fraud
  flag set, and every alert has its status set to \<open>open\<close>. The code builds an alert for
  each such record, but with no status: on the prediction the scorer returns for the
  ATM row, the one alert document has no \<open>status\<close> key.
\<close>

theorem C2_alert_without_status:
  "risk_level (ruleBasedRow (Some 23) 0 ''TXN-1-a'' atmRow) = ''HIGH''
   \<and> map (field ''Transaction_ID'')
       (alertDocs 1700000000000 [ruleBasedRow (Some 23) 0 ''TXN-1-a'' atmRow])
     = [Some (DStr ''T1'')]
   \<and> map (field ''status'')
       (alertDocs 1700000000000 [ruleBasedRow (Some 23) 0 ''TXN-1-a'' atmRow])
     = [None]"
proof -
  have h: "risk_level (ruleBasedRow (Some 23) 0 ''TXN-1-a'' atmRow) = ''HIGH''"
    by (simp add: ruleBasedRow_def Let_def fraudProb_def fraudScore_def baseScore_def
        firedRules_atmRow getRiskLevel_def)
  have i: "pred_id (ruleBasedRow (Some 23) 0 ''TXN-1-a'' atmRow) = ''T1''"
    by (simp add: ruleBasedRow_def Let_def atmRow_def)
  show ?thesis
    unfolding alertDocs_filter using h i by (simp add: alertDoc_def field_def)
qed

end
